theory Spec2Isabelle
  imports Main
begin

section \<open>Data model of the broker (stompServer.js)\<close>

text \<open>
  JavaScript values that the broker handles are modelled as the code uses them.
  A header value is a string, or a number (\<open>content-length\<close> is stored as the number
  \<open>frame.body.length\<close>). A headers object is a list of properties in insertion order;
  reading a missing property gives \<open>None\<close> (JavaScript's \<open>undefined\<close>), writing a property
  replaces its value in place or appends it.
\<close>

datatype hval = HStr string | HNum nat

type_synonym headers = "(string \<times> hval) list"

definition get_prop :: "headers \<Rightarrow> string \<Rightarrow> hval option" where
  "get_prop h k = map_of h k"

fun set_prop :: "headers \<Rightarrow> string \<Rightarrow> hval \<Rightarrow> headers" where
  "set_prop [] k v = [(k, v)]"
| "set_prop ((k', v') # h) k v = (if k' = k then (k, v) # h else (k', v') # set_prop h k v)"

text \<open>
  A message body is a string, a Buffer of octets, or another JavaScript value (a result
  of \<open>JSON.parse\<close> that is not a string, or whatever the host passed to \<open>send\<close>);
  \<open>None\<close> is \<open>undefined\<close>. The length of a string is the number of its characters.
\<close>

datatype json = JNull | JBool bool | JNum int | JArr "json list" | JObj "(string \<times> json) list"

datatype body = Text string | Buffer "nat list" | Structured json

record frame =
  command :: "string option"
  headers :: headers
  body :: "body option"

text \<open>
  The fields of a WebSocket object that the broker reads and writes:
  \<open>sessionId\<close>, the interval handle \<open>heartbeatClock\<close> (\<open>None\<close> when the property is
  absent) and \<open>heartbeatTime\<close> in milliseconds.
\<close>

record socket =
  sessionId :: string
  heartbeatClock :: "nat option"
  heartbeatTime :: "int option"

text \<open>
  An entry of \<open>this.subscribes\<close>. \<open>sub_socket\<close> is \<open>None\<close> for the subscriptions the host
  creates with \<open>subscribe\<close>, which have no \<open>socket\<close> property. The record holds the
  socket as it was when the client subscribed; the broker only tests it against
  \<open>undefined\<close> and hands it to \<open>stompUtils.sendFrame\<close>.
\<close>

record sub =
  sub_id :: string
  sub_sessionId :: string
  topic :: string
  tokens :: "string list"
  sub_socket :: "socket option"

text \<open>The argument object of the \<open>send\<close> handlers: \<open>{dest, frame}\<close>.\<close>

record send_args =
  dest :: string
  args_frame :: frame

section \<open>Destination matcher\<close>

text \<open>\<open>xs[i]\<close> on a JavaScript array: \<open>undefined\<close> outside the array.\<close>

definition at :: "'a list \<Rightarrow> nat \<Rightarrow> 'a option" where
  "at xs i = (if i < length xs then Some (xs ! i) else None)"

text \<open>
  The loop \<open>for (var t in tokens)\<close> of \<open>_checkSubMatchDest\<close> visits the indices of the
  destination's tokens in order; \<open>match\<close> starts as \<open>true\<close>, the first branch sets it to
  \<open>false\<close> and leaves the loop, the second leaves the loop with \<open>match\<close> still \<open>true\<close>.
\<close>

fun matchLoop :: "string list \<Rightarrow> string list \<Rightarrow> nat list \<Rightarrow> bool" where
  "matchLoop subTokens toks [] = True"
| "matchLoop subTokens toks (t # ts) =
     (if at subTokens t = None \<or>
         (at subTokens t \<noteq> at toks t \<and> at subTokens t \<noteq> Some ''*'' \<and> at subTokens t \<noteq> Some ''**'')
      then False
      else if at subTokens t = Some ''**'' then True
      else matchLoop subTokens toks ts)"

text \<open>
  \<open>stompUtils.tokenizeDestination\<close> lives in \<open>lib/stomp-utils\<close>; the matcher takes it as
  the parameter \<open>tokenize\<close>.
\<close>

definition checkSubMatchDest :: "(string \<Rightarrow> string list) \<Rightarrow> sub \<Rightarrow> send_args \<Rightarrow> bool" where
  "checkSubMatchDest tokenize s args =
     (let toks = tokenize (dest args)
      in matchLoop (tokens s) toks [0..<length toks])"

text \<open>
  Modelled from the spec: the splitting of \<open>stompUtils.tokenizeDestination\<close>, which is
  not among the sources. A string is cut at every separator; the segments between
  separators are kept, the empty ones too.
\<close>

fun splitOn :: "(char \<Rightarrow> bool) \<Rightarrow> string \<Rightarrow> string \<Rightarrow> string list" where
  "splitOn sep cur [] = [rev cur]"
| "splitOn sep cur (c # cs) =
     (if sep c then rev cur # splitOn sep [] cs else splitOn sep (c # cur) cs)"

text \<open>
  Modelled from the spec: \<open>stompUtils.tokenizeDestination\<close>, which is not among the
  sources. The spec has it split the destination on \<open>.\<close> and \<open>/\<close>; the segment before a
  leading separator is the empty first token. The theorems on the matcher that are not
  instances hold for every tokenizer.
\<close>

definition tokenizeDestination :: "string \<Rightarrow> string list" where
  "tokenizeDestination d = splitOn (\<lambda>c. c = CHR ''.'' \<or> c = CHR ''/'') [] d"

section \<open>Outputs and failures\<close>

text \<open>
  What a handler does to the outside is returned as a list of effects, in the order the
  code performs them: a line for the \<open>debug\<close> sink, an event emitted to the host, a frame
  handed to \<open>stompUtils.sendFrame\<close> for a socket, a cleared interval timer, a call of the
  \<open>callback\<close> argument of the send handler.
\<close>

datatype effect =
    Debug "string list"
  | EmitSend headers "body option" string
  | EmitSubscribe sub
  | EmitMessage string "body option" headers
  | SendFrame socket frame
  | ClearInterval nat
  | Callback bool

text \<open>
  Exceptions: a \<open>TypeError\<close> of the runtime, the \<open>SyntaxError\<close> of \<open>JSON.parse\<close>, and a
  thrown string.
\<close>

datatype error = TypeError | SyntaxError | Thrown string

section \<open>Frames\<close>

fun isBuffer :: "body \<Rightarrow> bool" where
  "isBuffer (Buffer bs) = True"
| "isBuffer b = False"

text \<open>\<open>typeof b === 'string'\<close>\<close>

fun isString :: "body \<Rightarrow> bool" where
  "isString (Text t) = True"
| "isString b = False"

text \<open>
  \<open>frame.body.length\<close> of a string or a Buffer; the send handler reads it of no other
  body.
\<close>

fun body_length :: "body \<Rightarrow> nat" where
  "body_length (Text t) = length t"
| "body_length (Buffer bs) = length bs"
| "body_length (Structured j) = 0"

text \<open>
  \<open>frameSerializer\<close> and \<open>frameParser\<close>. \<open>JSON.stringify\<close> and \<open>JSON.parse\<close> belong to the
  runtime and are parameters; \<open>parse\<close> gives \<open>None\<close> where \<open>JSON.parse\<close> throws.
\<close>

definition frameSerializer :: "(body \<Rightarrow> string) \<Rightarrow> frame \<Rightarrow> frame" where
  "frameSerializer stringify fr =
     (case body fr of
        None \<Rightarrow> fr
      | Some b \<Rightarrow>
          if get_prop (headers fr) ''content-type'' = Some (HStr ''application/json'') \<and> \<not> isBuffer b
          then fr\<lparr>body := Some (Text (stringify b))\<rparr>
          else fr)"

definition frameParser :: "(body \<Rightarrow> body option) \<Rightarrow> frame \<Rightarrow> error + frame" where
  "frameParser parse fr =
     (case body fr of
        None \<Rightarrow> Inr fr
      | Some b \<Rightarrow>
          if get_prop (headers fr) ''content-type'' = Some (HStr ''application/json'')
          then (case parse b of None \<Rightarrow> Inl SyntaxError | Some v \<Rightarrow> Inr (fr\<lparr>body := Some v\<rparr>))
          else Inr fr)"

section \<open>Publish fan-out\<close>

text \<open>
  The body of the loop of \<open>_sendToSubscriptions\<close> for a matching subscription: the frame
  of \<open>args\<close> gets the subscription's id and the command \<open>MESSAGE\<close>, and goes to the
  subscriber's socket or, for a subscription without socket, to the host's listeners.
\<close>

definition deliver :: "sub \<Rightarrow> frame \<Rightarrow> effect" where
  "deliver s fr =
     (case sub_socket s of
        Some sock \<Rightarrow> SendFrame sock fr
      | None \<Rightarrow> EmitMessage (sub_id s) (body fr) (headers fr))"

definition stamp :: "sub \<Rightarrow> frame \<Rightarrow> frame" where
  "stamp s fr =
     fr\<lparr>headers := set_prop (headers fr) ''subscription'' (HStr (sub_id s)),
        command := Some ''MESSAGE''\<rparr>"

text \<open>
  \<open>_sendToSubscriptions\<close>: one pass over \<open>this.subscribes\<close>. It returns \<open>args\<close> as the
  loop leaves it, and the deliveries.
\<close>

fun sendToSubscriptions ::
  "(string \<Rightarrow> string list) \<Rightarrow> socket \<Rightarrow> send_args \<Rightarrow> sub list \<Rightarrow> send_args \<times> effect list" where
  "sendToSubscriptions tokenize sock args [] = (args, [])"
| "sendToSubscriptions tokenize sock args (s # subs) =
     (if sessionId sock = sub_sessionId s
      then sendToSubscriptions tokenize sock args subs
      else if checkSubMatchDest tokenize s args
      then (let fr = stamp s (args_frame args);
                (args', effs) = sendToSubscriptions tokenize sock (args\<lparr>args_frame := fr\<rparr>) subs
            in (args', deliver s fr # effs))
      else sendToSubscriptions tokenize sock args subs)"

section \<open>Command handlers\<close>

text \<open>
  The terminal handler of \<open>send\<close>. \<open>msgId\<close> is what \<open>stompUtils.genId('msg')\<close> returns,
  \<open>subs\<close> is \<open>this.subscribes\<close>, \<open>callback\<close> tells whether a third argument was passed.
  The local object \<open>headers\<close> is built as the code builds it; the function
  \<open>localHeaders\<close> is its value after the loop over the frame's headers.
\<close>

definition localHeaders :: "string \<Rightarrow> frame \<Rightarrow> headers" where
  "localHeaders msgId fr =
     fold (\<lambda>(k, v) h. set_prop h k v) (headers fr)
       [(''message-id'', HStr msgId), (''content-type'', HStr ''text/plain'')]"

definition onSendHandler ::
  "(string \<Rightarrow> string list) \<Rightarrow> (body \<Rightarrow> string) \<Rightarrow> string \<Rightarrow> sub list \<Rightarrow>
     socket \<Rightarrow> send_args \<Rightarrow> bool \<Rightarrow> error + (bool \<times> send_args \<times> effect list)" where
  "onSendHandler tokenize stringify msgId subs sock args callback =
     (let bodyObj = body (args_frame args);
          fr = frameSerializer stringify (args_frame args);
          checked =
            (case body fr of
               None \<Rightarrow> Inr fr
             | Some b \<Rightarrow>
                 if \<not> isString b \<and> \<not> isBuffer b
                 then Inl (Thrown ''Message body is not string'')
                 else Inr (fr\<lparr>headers := set_prop (headers fr) ''content-length'' (HNum (body_length b))\<rparr>))
      in case checked of
           Inl e \<Rightarrow> Inl e
         | Inr fr1 \<Rightarrow>
             (let hdrs = localHeaders msgId fr1;
                  args1 = args\<lparr>args_frame := fr1\<rparr>;
                  (args2, effs) = sendToSubscriptions tokenize sock args1 subs
              in Inr (True, args2,
                      EmitSend (headers fr1) bodyObj (dest args) # effs @
                      (if callback then [Callback True] else []))))"

text \<open>The argument object of the \<open>subscribe\<close> handlers: \<open>{id, dest}\<close>.\<close>

record subscribe_args =
  args_id :: string
  args_dest :: string

text \<open>
  The terminal handler of \<open>subscribe\<close>: the new entry is pushed onto \<open>this.subscribes\<close>.
\<close>

definition onSubscribeHandler ::
  "(string \<Rightarrow> string list) \<Rightarrow> sub list \<Rightarrow> socket \<Rightarrow> subscribe_args \<Rightarrow> bool \<times> sub list \<times> effect list" where
  "onSubscribeHandler tokenize subs sock args =
     (let s = \<lparr>sub_id = args_id args, sub_sessionId = sessionId sock, topic = args_dest args,
                tokens = tokenize (args_dest args), sub_socket = Some sock\<rparr>
      in (True, subs @ [s],
          [EmitSubscribe s, Debug [''Server subscribe'', args_id args, args_dest args]]))"

section \<open>Heartbeat and teardown\<close>

definition heartbeatOff :: "socket \<Rightarrow> socket \<times> effect list" where
  "heartbeatOff sock =
     (case heartbeatClock sock of
        None \<Rightarrow> (sock, [])
      | Some clock \<Rightarrow> (sock\<lparr>heartbeatClock := None\<rparr>, [ClearInterval clock]))"

text \<open>\<open>xs.splice(i, 1)\<close>: the array without its element at index \<open>i\<close>.\<close>

definition splice1 :: "'a list \<Rightarrow> nat \<Rightarrow> 'a list" where
  "splice1 xs i = take i xs @ drop (Suc i) xs"

text \<open>
  The loop of \<open>afterConnectionClose\<close>, with its index: after \<open>splice(i--, 1)\<close> and the
  loop's \<open>i++\<close> the index is the same and the array is one shorter.
\<close>

function removeLoop :: "socket \<Rightarrow> sub list \<Rightarrow> nat \<Rightarrow> sub list" where
  "removeLoop sock subs i =
     (if i < length subs
      then (if sub_sessionId (subs ! i) = sessionId sock
            then removeLoop sock (splice1 subs i) i
            else removeLoop sock subs (Suc i))
      else subs)"
  by pat_completeness auto
termination
  by (relation "measure (\<lambda>(sock, subs, i). length subs - i)") (auto simp: splice1_def)

declare removeLoop.simps [simp del]

definition afterConnectionClose :: "sub list \<Rightarrow> socket \<Rightarrow> sub list \<times> socket \<times> effect list" where
  "afterConnectionClose subs sock =
     (let subs' = removeLoop sock subs 0;
          (sock', effs) = heartbeatOff sock
      in (subs', sock', effs))"


section \<open>Incoming payloads\<close>

text \<open>
  What the transport hands to \<open>parseRequest\<close>: the text of a message, a string, or
  the octets of a binary message, a Buffer. The octets are written as characters.
\<close>

datatype payload = TextData string | BinaryData string

text \<open>
  Modelled from the spec: the constant \<open>BYTES.LF\<close> of \<open>lib/bytes\<close>, which is not among
  the sources. The spec has the heartbeat be the single byte \<open>0x0A\<close>, which the broker
  also writes with \<open>socket.send(BYTES.LF)\<close>: the constant is the string of that one
  character.
\<close>

definition LF :: string where
  "LF = [CHR 0x0A]"

text \<open>
  \<open>data === BYTES.LF\<close> is strict equality with a string: it holds for a string payload
  with the same characters, and for no Buffer.
\<close>

fun isLF :: "payload \<Rightarrow> bool" where
  "isLF (TextData t) = (t = LF)"
| "isLF (BinaryData bs) = False"

text \<open>
  What \<open>parseRequest\<close> returns: nothing (\<open>return;\<close>), a string, or what the command
  function returned.
\<close>

datatype 'r returned = Undefined | Str string | FromHandler 'r

text \<open>
  The value of \<open>this.frameHandler[frame.command]\<close>: a falsy value (\<open>undefined\<close>, when
  there is no such property), a truthy value that is not a function (the property
  \<open>__proto__\<close> of an object is one), or a function.
\<close>

datatype 'r entry = Falsy | NotCallable | Func "socket \<Rightarrow> frame \<Rightarrow> 'r"

text \<open>The property key that a command makes: \<open>undefined\<close> is the key \<open>"undefined"\<close>.\<close>

definition commandKey :: "frame \<Rightarrow> string" where
  "commandKey fr = (case command fr of None \<Rightarrow> ''undefined'' | Some c \<Rightarrow> c)"

text \<open>
  The lines of \<open>parseRequest\<close> after the frame is parsed. The table \<open>this.frameHandler\<close>
  lives in \<open>lib/stomp\<close> and is the parameter \<open>frameHandler\<close>. \<open>if (cmdFunc)\<close> tests
  truthiness; then \<open>frameParser\<close> runs, and may throw; then \<open>cmdFunc\<close> is called, which
  throws a \<open>TypeError\<close> when it is not a function. With a falsy entry the string
  \<open>Command not found\<close> is returned.
\<close>

definition dispatchFrame ::
  "(string \<Rightarrow> 'r entry) \<Rightarrow> (body \<Rightarrow> body option) \<Rightarrow> socket \<Rightarrow> frame \<Rightarrow> error + 'r returned" where
  "dispatchFrame frameHandler parse sock fr =
     (case frameHandler (commandKey fr) of
        Falsy \<Rightarrow> Inr (Str ''Command not found'')
      | cmdFunc \<Rightarrow>
          (case frameParser parse fr of
             Inl e \<Rightarrow> Inl e
           | Inr fr' \<Rightarrow>
               (case cmdFunc of
                  Func f \<Rightarrow> Inr (FromHandler (f sock fr'))
                | other \<Rightarrow> Inl TypeError)))"

text \<open>
  \<open>parseRequest\<close>. \<open>stompUtils.parseFrame\<close> lives in \<open>lib/stomp-utils\<close> and is a
  parameter; \<open>now\<close> is \<open>Date.now()\<close>. On a socket with a heartbeat clock every payload
  sets \<open>heartbeatTime\<close>, and the payload that is \<open>BYTES.LF\<close> ends the function there. The
  result is the socket, the effects of \<open>parseRequest\<close> itself, and the value returned or
  the exception thrown.
\<close>

definition parseRequest ::
  "(payload \<Rightarrow> frame) \<Rightarrow> (string \<Rightarrow> 'r entry) \<Rightarrow> (body \<Rightarrow> body option) \<Rightarrow>
     int \<Rightarrow> socket \<Rightarrow> payload \<Rightarrow> socket \<times> effect list \<times> (error + 'r returned)" where
  "parseRequest parseFrame frameHandler parse now sock data =
     (let sock1 = (if heartbeatClock sock \<noteq> None then sock\<lparr>heartbeatTime := Some now\<rparr> else sock)
      in if heartbeatClock sock \<noteq> None \<and> isLF data
         then (sock1, [Debug [''PONG'']], Inr Undefined)
         else (sock1, [], dispatchFrame frameHandler parse sock1 (parseFrame data)))"

section \<open>Middleware\<close>

text \<open>
  \<open>String.prototype.toLowerCase\<close> on the letters \<open>A\<close> to \<open>Z\<close>; the command names are
  ASCII.
\<close>

definition lowerChar :: "char \<Rightarrow> char" where
  "lowerChar c =
     (case map_of (zip ''ABCDEFGHIJKLMNOPQRSTUVWXYZ'' ''abcdefghijklmnopqrstuvwxyz'') c of
        None \<Rightarrow> c
      | Some l \<Rightarrow> l)"

definition toLowerCase :: "string \<Rightarrow> string" where
  "toLowerCase cmd = map lowerChar cmd"

text \<open>
  \<open>this.middleware\<close> is an object from command names to arrays of handlers. The three
  registration functions are generic in the handler; \<open>=\<close> on handlers stands for
  JavaScript's \<open>===\<close> on function objects.
\<close>

definition addMiddleware :: "(string \<rightharpoonup> 'h list) \<Rightarrow> string \<Rightarrow> 'h \<Rightarrow> (string \<rightharpoonup> 'h list)" where
  "addMiddleware mw cmd h =
     (let c = toLowerCase cmd;
          mw1 = (if mw c = None then mw(c \<mapsto> []) else mw)
      in case mw1 c of
           None \<Rightarrow> mw1
         | Some hs \<Rightarrow> mw1(c \<mapsto> hs @ [h]))"

definition setMiddleware :: "(string \<rightharpoonup> 'h list) \<Rightarrow> string \<Rightarrow> 'h \<Rightarrow> (string \<rightharpoonup> 'h list)" where
  "setMiddleware mw cmd h = mw(toLowerCase cmd \<mapsto> [h])"

text \<open>\<open>Array.prototype.indexOf\<close>: the first index of the element, or \<open>-1\<close>.\<close>

fun indexOfFrom :: "nat \<Rightarrow> 'h list \<Rightarrow> 'h \<Rightarrow> int" where
  "indexOfFrom i [] h = -1"
| "indexOfFrom i (x # xs) h = (if x = h then int i else indexOfFrom (Suc i) xs h)"

definition indexOf :: "'h list \<Rightarrow> 'h \<Rightarrow> int" where
  "indexOf hs h = indexOfFrom 0 hs h"

text \<open>
  \<open>removeMiddleware\<close>: with no array under the command, \<open>handlers\<close> is \<open>undefined\<close> and
  \<open>handlers.indexOf\<close> throws a \<open>TypeError\<close>.
\<close>

definition removeMiddleware ::
  "(string \<rightharpoonup> 'h list) \<Rightarrow> string \<Rightarrow> 'h \<Rightarrow> error + (string \<rightharpoonup> 'h list)" where
  "removeMiddleware mw cmd h =
     (case mw (toLowerCase cmd) of
        None \<Rightarrow> Inl TypeError
      | Some handlers \<Rightarrow>
          (let idx = indexOf handlers h
           in if idx \<ge> 0
              then Inr (mw(toLowerCase cmd \<mapsto> splice1 handlers (nat idx)))
              else Inr mw))"


text \<open>
  An interceptor is a JavaScript function \<open>(socket, args, next)\<close>. It is described by what
  the pipeline observes of it: \<open>hid\<close> is the function object (two interceptors are the
  same function when all fields agree), \<open>nextCalls\<close> is how many times it invokes
  \<open>next()\<close> while it runs, and \<open>returns\<close> is the value it returns, from the values that
  its calls of \<open>next()\<close> returned. An interceptor of this model changes neither \<open>args\<close> nor
  the broker itself.
\<close>

record ('a, 'r) handler =
  hid :: nat
  nextCalls :: "socket \<Rightarrow> 'a \<Rightarrow> nat"
  returns :: "socket \<Rightarrow> 'a \<Rightarrow> 'r list \<Rightarrow> 'r"

text \<open>What ran, in order: an interceptor, named by \<open>hid\<close>, or the terminal handler.\<close>

datatype chain_event = Interceptor nat | TerminalHandler

text \<open>
  The closure \<open>callNext\<close> of \<open>withMiddleware\<close> shares one iterator \<open>iter\<close> over the handlers:
  every call takes the next handler from it, whoever calls, and once the iterator is done
  every call runs \<open>finalHandler\<close>. \<open>callNextTimes n\<close> is \<open>n\<close> calls of \<open>callNext()\<close> in a row,
  as an interceptor with \<open>nextCalls = n\<close> makes them; each call is the body of \<open>callNext\<close>.
  The terminal handler gets \<open>socket\<close> and \<open>args\<close> and the state \<open>st\<close> of the broker, and
  returns its value with \<open>args\<close> and the state as it leaves them. The result is the
  returned values, the iterator, \<open>args\<close>, the state, and what ran.
\<close>

function callNextTimes ::
  "(socket \<Rightarrow> 'a \<Rightarrow> 'st \<Rightarrow> 'r \<times> 'a \<times> 'st) \<Rightarrow> socket \<Rightarrow> nat \<Rightarrow> ('a, 'r) handler list \<Rightarrow> 'a \<Rightarrow> 'st \<Rightarrow>
     'r list \<times> ('a, 'r) handler list \<times> 'a \<times> 'st \<times> chain_event list" where
  "callNextTimes finalHandler sock 0 iter args st = ([], iter, args, st, [])"
| "callNextTimes finalHandler sock (Suc n) [] args st =
     (case finalHandler sock args st of (r, args1, st1) \<Rightarrow>
        (case callNextTimes finalHandler sock n [] args1 st1 of (rs, iter2, args2, st2, tr2) \<Rightarrow>
           (r # rs, iter2, args2, st2, TerminalHandler # tr2)))"
| "callNextTimes finalHandler sock (Suc n) (h # rest) args st =
     (case callNextTimes finalHandler sock (nextCalls h sock args) rest args st of
        (rs1, iter1, args1, st1, tr1) \<Rightarrow>
          (case callNextTimes finalHandler sock n iter1 args1 st1 of (rs, iter2, args2, st2, tr2) \<Rightarrow>
             (returns h sock args rs1 # rs, iter2, args2, st2, Interceptor (hid h) # tr1 @ tr2)))"
  by pat_completeness auto

lemma callNextTimes_iter_length:
  "callNextTimes_dom (f, s, n, iter, a, st) \<Longrightarrow>
   length (fst (snd (callNextTimes f s n iter a st))) \<le> length iter"
proof (induction f s n iter a st rule: callNextTimes.pinduct)
  case (1 f s iter a st)
  then show ?case by (simp add: callNextTimes.psimps)
next
  case (2 f s n a st)
  obtain r a1 st1 where e0: "f s a st = (r, a1, st1)"
    by (cases "f s a st") auto
  obtain rs iter2 a2 st2 tr2 where e2: "callNextTimes f s n [] a1 st1 = (rs, iter2, a2, st2, tr2)"
    by (cases "callNextTimes f s n [] a1 st1") auto
  have "length iter2 \<le> 0" using "2.IH" [OF e0 [symmetric] refl] e2 by simp
  then show ?case using "2.hyps" e0 e2 by (simp add: callNextTimes.psimps)
next
  case (3 f s n h rest a st)
  obtain rs1 iter1 a1 st1 tr1 where
    e1: "callNextTimes f s (nextCalls h s a) rest a st = (rs1, iter1, a1, st1, tr1)"
    by (cases "callNextTimes f s (nextCalls h s a) rest a st") auto
  obtain rs iter2 a2 st2 tr2 where
    e2: "callNextTimes f s n iter1 a1 st1 = (rs, iter2, a2, st2, tr2)"
    by (cases "callNextTimes f s n iter1 a1 st1") auto
  have l1: "length iter1 \<le> length rest" using "3.IH"(1) e1 by simp
  have l2: "length iter2 \<le> length iter1"
    using "3.IH"(2) [OF e1 [symmetric] refl refl refl] e2 by simp
  show ?case using "3.hyps" e1 e2 l1 l2 by (simp add: callNextTimes.psimps)
qed

termination callNextTimes
  apply (relation "measures [\<lambda>(f, s, n, iter, a, st). length iter, \<lambda>(f, s, n, iter, a, st). n]")
  apply simp_all
  subgoal for f s h rest a st
    using callNextTimes_iter_length [of f s "nextCalls h s a" rest a st]
    by (metis fst_conv snd_conv le_imp_less_Suc)
  done

text \<open>One call of \<open>callNext()\<close>.\<close>

definition callNext ::
  "(socket \<Rightarrow> 'a \<Rightarrow> 'st \<Rightarrow> 'r \<times> 'a \<times> 'st) \<Rightarrow> socket \<Rightarrow> ('a, 'r) handler list \<Rightarrow> 'a \<Rightarrow> 'st \<Rightarrow>
     'r \<times> ('a, 'r) handler list \<times> 'a \<times> 'st \<times> chain_event list" where
  "callNext finalHandler sock iter args st =
     (case iter of
        [] \<Rightarrow>
          (case finalHandler sock args st of (r, args1, st1) \<Rightarrow> (r, [], args1, st1, [TerminalHandler]))
      | h # rest \<Rightarrow>
          (case callNextTimes finalHandler sock (nextCalls h sock args) rest args st of
             (rs, iter1, args1, st1, tr) \<Rightarrow>
               (returns h sock args rs, iter1, args1, st1, Interceptor (hid h) # tr)))"

text \<open>
  \<open>withMiddleware(command, finalHandler)\<close>, applied to \<open>(socket, args)\<close>: the handlers
  registered under the command, or none, then the first \<open>callNext()\<close>.
\<close>

definition withMiddleware ::
  "(string \<rightharpoonup> ('a, 'r) handler list) \<Rightarrow> string \<Rightarrow> (socket \<Rightarrow> 'a \<Rightarrow> 'st \<Rightarrow> 'r \<times> 'a \<times> 'st) \<Rightarrow>
     socket \<Rightarrow> 'a \<Rightarrow> 'st \<Rightarrow> 'r \<times> 'a \<times> 'st \<times> chain_event list" where
  "withMiddleware mw cmd finalHandler sock args st =
     (let handlers = (case mw (toLowerCase cmd) of None \<Rightarrow> [] | Some hs \<Rightarrow> hs)
      in case callNext finalHandler sock handlers args st of
           (r, iter, args1, st1, tr) \<Rightarrow> (r, args1, st1, tr))"

section \<open>Stand-ins for the absent library, for concrete instances\<close>

text \<open>
  For the instances below: a stand-in for \<open>stompUtils.parseFrame\<close> that reads the command
  line of the payload and nothing else, and a table as an object with a function under
  each of the six client commands of the protocol has it: each function returns the
  command's name here, the key \<open>__proto__\<close> gives the object's prototype, which is not a
  function, and other commands give \<open>undefined\<close>. The functions that every object
  inherits, such as \<open>toString\<close>, are left out of this table; the theorems hold for
  every table.
\<close>

fun payloadText :: "payload \<Rightarrow> string" where
  "payloadText (TextData t) = t"
| "payloadText (BinaryData bs) = bs"

definition commandLine :: "payload \<Rightarrow> frame" where
  "commandLine data =
     \<lparr>command = Some (takeWhile (\<lambda>c. c \<noteq> CHR 0x0A) (payloadText data)), headers = [], body = None\<rparr>"

definition clientCommands :: "string \<Rightarrow> string entry" where
  "clientCommands c =
     (if c \<in> set [''CONNECT'', ''STOMP'', ''SEND'', ''SUBSCRIBE'', ''UNSUBSCRIBE'', ''DISCONNECT'']
      then Func (\<lambda>sock fr. c)
      else if c = ''__proto__'' then NotCallable
      else Falsy)"

text \<open>
  For the instances below: the interceptor \<open>i\<close> that invokes \<open>next()\<close> \<open>n\<close> times and
  returns \<open>r\<close>.
\<close>

definition constHandler :: "nat \<Rightarrow> nat \<Rightarrow> 'r \<Rightarrow> ('a, 'r) handler" where
  "constHandler i n r = \<lparr>hid = i, nextCalls = (\<lambda>sock args. n), returns = (\<lambda>sock args rs. r)\<rparr>"

section \<open>The handlers behind the pipeline, and the host's \<open>send\<close>\<close>

text \<open>
  \<open>this.onSubscribe\<close> and \<open>this.onSend\<close> are the terminal handlers wrapped by
  \<open>withMiddleware\<close>. For \<open>subscribe\<close> the state that the pipeline threads is the registry
  with the effects so far; for \<open>send\<close>, which only reads the registry, the effects so
  far. The wrapper calls the terminal handler with \<open>(socket, args)\<close> only, so the
  \<open>callback\<close> of the send handler is absent. An exception of the terminal handler is
  the \<open>Inl\<close> value of the \<open>send\<close> pipeline.
\<close>

definition onSubscribe ::
  "(string \<Rightarrow> string list) \<Rightarrow> (string \<rightharpoonup> (subscribe_args, bool) handler list) \<Rightarrow> sub list \<Rightarrow>
     socket \<Rightarrow> subscribe_args \<Rightarrow> bool \<times> sub list \<times> effect list \<times> chain_event list" where
  "onSubscribe tokenize mw subs sock args =
     (case withMiddleware mw ''subscribe''
             (\<lambda>so ar (sb, out).
                case onSubscribeHandler tokenize sb so ar of
                  (r, sb', effs) \<Rightarrow> (r, ar, (sb', out @ effs)))
             sock args (subs, []) of
        (r, args', (subs', out), tr) \<Rightarrow> (r, subs', out, tr))"

definition onSend ::
  "(string \<Rightarrow> string list) \<Rightarrow> (body \<Rightarrow> string) \<Rightarrow> string \<Rightarrow>
     (string \<rightharpoonup> (send_args, error + bool) handler list) \<Rightarrow> sub list \<Rightarrow>
     socket \<Rightarrow> send_args \<Rightarrow> (error + bool) \<times> send_args \<times> effect list \<times> chain_event list" where
  "onSend tokenize stringify msgId mw subs sock args =
     withMiddleware mw ''send''
       (\<lambda>so ar out.
          case onSendHandler tokenize stringify msgId subs so ar False of
            Inl e \<Rightarrow> (Inl e, ar, out)
          | Inr (r, ar', effs) \<Rightarrow> (Inr r, ar', out @ effs))
       sock args []"

text \<open>The pseudo-session of the host.\<close>

definition selfSocket :: socket where
  "selfSocket = \<lparr>sessionId = ''self_1234'', heartbeatClock = None, heartbeatTime = None\<rparr>"

text \<open>
  \<open>send(topic, headers, body)\<close> of the host: the headers are copied, the frame goes
  through \<open>frameParser\<close> and then through \<open>onSend\<close> on \<open>selfSocket\<close>. The result is the
  exception that leaves \<open>send\<close>, if any, and the effects.
\<close>

definition send ::
  "(string \<Rightarrow> string list) \<Rightarrow> (body \<Rightarrow> string) \<Rightarrow> (body \<Rightarrow> body option) \<Rightarrow> string \<Rightarrow>
     (string \<rightharpoonup> (send_args, error + bool) handler list) \<Rightarrow> sub list \<Rightarrow>
     string \<Rightarrow> headers option \<Rightarrow> body option \<Rightarrow> error option \<times> effect list" where
  "send tokenize stringify parse msgId mw subs topic_name hdrs bdy =
     (let copied = (case hdrs of None \<Rightarrow> [] | Some hs \<Rightarrow> fold (\<lambda>(k, v) h. set_prop h k v) hs []);
          fr = \<lparr>command = None, headers = copied, body = bdy\<rparr>
      in case frameParser parse fr of
           Inl e \<Rightarrow> (Some e, [])
         | Inr fr' \<Rightarrow>
             (case onSend tokenize stringify msgId mw subs selfSocket \<lparr>dest = topic_name, args_frame = fr'\<rparr> of
                (r, args', out, tr) \<Rightarrow> ((case r of Inl e \<Rightarrow> Some e | Inr b \<Rightarrow> None), out)))"

text \<open>The headers that a subscriber receives with a delivery.\<close>

fun deliveredHeaders :: "effect \<Rightarrow> headers option" where
  "deliveredHeaders (SendFrame sock fr) = Some (headers fr)"
| "deliveredHeaders (EmitMessage i b h) = Some h"
| "deliveredHeaders e = None"


section \<open>Properties of the destination matcher\<close>

lemma upt_step: "i < n \<Longrightarrow> [i..<n] = i # [Suc i..<n]"
  by (rule upt_conv_Cons)

lemma matchLoop_doublestar:
  assumes len: "length m = length pre"
      and ok: "\<forall>j<length pre. pre ! j = m ! j \<or> pre ! j = ''*'' \<or> pre ! j = ''**''"
  shows "i \<le> length pre \<Longrightarrow> k = length pre - i \<Longrightarrow>
         matchLoop (pre @ ''**'' # post) (m @ rest) [i..<length m + length rest]"
proof (induction k arbitrary: i)
  case 0
  then have i: "i = length pre" by simp
  show ?case
  proof (cases rest)
    case Nil
    then show ?thesis using i len by simp
  next
    case (Cons a as)
    then have "i < length m + length rest" using i len by simp
    then have "[i..<length m + length rest] = i # [Suc i..<length m + length rest]"
      by (rule upt_step)
    moreover have "at (pre @ ''**'' # post) i = Some ''**''"
      using i by (simp add: at_def)
    ultimately show ?thesis by simp
  qed
next
  case (Suc k)
  then have i: "i < length pre" by simp
  then have "i < length m + length rest" using len by simp
  then have u: "[i..<length m + length rest] = i # [Suc i..<length m + length rest]"
    by (rule upt_step)
  have a1: "at (pre @ ''**'' # post) i = Some (pre ! i)"
    using i by (simp add: at_def nth_append)
  have a2: "at (m @ rest) i = Some (m ! i)"
    using i len by (simp add: at_def nth_append)
  have later: "matchLoop (pre @ ''**'' # post) (m @ rest) [Suc i..<length m + length rest]"
    using Suc.IH [of "Suc i"] Suc.prems i by simp
  from ok i have "pre ! i = m ! i \<or> pre ! i = ''*'' \<or> pre ! i = ''**''" by blast
  then show ?case using u a1 a2 later by auto
qed

text \<open>
  The loop never reads a token of the subscription at or beyond the number of tokens of
  the destination.
\<close>

lemma matchLoop_take:
  "\<forall>i\<in>set idxs. i < length toks \<Longrightarrow>
   matchLoop (take (length toks) st) toks idxs = matchLoop st toks idxs"
  by (induction idxs) (auto simp: at_def)

lemma checkSubMatchDest_take:
  "checkSubMatchDest tokenize (s\<lparr>tokens := take (length (tokenize (dest args))) (tokens s)\<rparr>) args
   = checkSubMatchDest tokenize s args"
  by (simp add: checkSubMatchDest_def Let_def matchLoop_take)

lemma matchLoop_same:
  "\<forall>i\<in>set idxs. i < length toks \<Longrightarrow> matchLoop toks toks idxs"
  by (induction idxs) (auto simp: at_def)

text \<open>
  So a subscription whose tokens are those of the destination followed by any further
  tokens matches, with every tokenizer.
\<close>

lemma extended_subscription_matches:
  assumes "tokens s = tokenize (dest args) @ extra"
  shows "checkSubMatchDest tokenize s args"
proof -
  let ?toks = "tokenize (dest args)"
  have "matchLoop (tokens s) ?toks [0..<length ?toks]
      = matchLoop (take (length ?toks) (tokens s)) ?toks [0..<length ?toks]"
    by (simp add: matchLoop_take)
  also have "\<dots> = matchLoop ?toks ?toks [0..<length ?toks]"
    using assms by simp
  finally show ?thesis by (simp add: checkSubMatchDest_def matchLoop_same)
qed

text \<open>
  C3. The claim: a subscription pattern with more tokens than the destination, and no
  wildcard, never matches. The code: the loop of \<open>_checkSubMatchDest\<close> runs over the
  tokens of the destination only, so the subscription \<open>/a.b.c\<close> (four tokens, none of
  them a wildcard) matches a message published to \<open>/a.b\<close> (three tokens).
\<close>

theorem longer_subscription_matches:
  "length (tokens \<lparr>sub_id = ''1'', sub_sessionId = ''A'', topic = ''/a.b.c'',
                   tokens = tokenizeDestination ''/a.b.c'', sub_socket = None\<rparr>)
     > length (tokenizeDestination ''/a.b'')
   \<and> ''*'' \<notin> set (tokenizeDestination ''/a.b.c'')
   \<and> ''**'' \<notin> set (tokenizeDestination ''/a.b.c'')
   \<and> checkSubMatchDest tokenizeDestination
        \<lparr>sub_id = ''1'', sub_sessionId = ''A'', topic = ''/a.b.c'',
         tokens = tokenizeDestination ''/a.b.c'', sub_socket = None\<rparr>
        \<lparr>dest = ''/a.b'', args_frame = \<lparr>command = None, headers = [], body = None\<rparr>\<rparr>"
  by (simp add: checkSubMatchDest_def tokenizeDestination_def at_def upt_conv_Cons)

text \<open>
  C4. A subscription whose tokens are \<open>pre\<close> followed by \<open>**\<close> matches every destination
  whose tokens start with a sequence that matches \<open>pre\<close> token by token (equal, or the
  subscription's token is \<open>*\<close>), whatever follows, also when nothing follows.
\<close>

theorem doublestar_matches_any_tail:
  assumes "tokens s = pre @ [''**'']"
      and "tokenize (dest args) = m @ rest"
      and "list_all2 (\<lambda>p t. p = t \<or> p = ''*'') pre m"
  shows "checkSubMatchDest tokenize s args"
proof -
  have len: "length m = length pre" using assms(3) by (simp add: list_all2_lengthD)
  have ok: "\<forall>j<length pre. pre ! j = m ! j \<or> pre ! j = ''*'' \<or> pre ! j = ''**''"
    using assms(3) by (auto simp: list_all2_conv_all_nth)
  show ?thesis
    using matchLoop_doublestar [OF len ok, of 0 "length pre" "[]" rest] assms(1,2)
    by (simp add: checkSubMatchDest_def)
qed

theorem doublestar_matches_any_tail_witness:
  "checkSubMatchDest tokenizeDestination
     \<lparr>sub_id = ''1'', sub_sessionId = ''A'', topic = ''/a.*.**'',
      tokens = tokenizeDestination ''/a.*.**'', sub_socket = None\<rparr>
     \<lparr>dest = ''/a.x.y.z'', args_frame = \<lparr>command = None, headers = [], body = None\<rparr>\<rparr>
   \<and> checkSubMatchDest tokenizeDestination
     \<lparr>sub_id = ''1'', sub_sessionId = ''A'', topic = ''/a.*.**'',
      tokens = tokenizeDestination ''/a.*.**'', sub_socket = None\<rparr>
     \<lparr>dest = ''/a.x'', args_frame = \<lparr>command = None, headers = [], body = None\<rparr>\<rparr>"
proof -
  have t: "tokenizeDestination ''/a.*.**'' = ['''', ''a'', ''*''] @ [''**'']"
    by (simp add: tokenizeDestination_def)
  have d1: "tokenizeDestination ''/a.x.y.z'' = ['''', ''a'', ''x''] @ [''y'', ''z'']"
    by (simp add: tokenizeDestination_def)
  have d2: "tokenizeDestination ''/a.x'' = ['''', ''a'', ''x''] @ []"
    by (simp add: tokenizeDestination_def)
  have m: "list_all2 (\<lambda>p t. p = t \<or> p = ''*'') ['''', ''a'', ''*''] ['''', ''a'', ''x'']"
    by simp
  show ?thesis
    using doublestar_matches_any_tail
            [of "\<lparr>sub_id = ''1'', sub_sessionId = ''A'', topic = ''/a.*.**'',
                  tokens = tokenizeDestination ''/a.*.**'', sub_socket = None\<rparr>"
                "['''', ''a'', ''*'']" tokenizeDestination
                "\<lparr>dest = ''/a.x.y.z'', args_frame = \<lparr>command = None, headers = [], body = None\<rparr>\<rparr>"
                "['''', ''a'', ''x'']" "[''y'', ''z'']"]
          doublestar_matches_any_tail
            [of "\<lparr>sub_id = ''1'', sub_sessionId = ''A'', topic = ''/a.*.**'',
                  tokens = tokenizeDestination ''/a.*.**'', sub_socket = None\<rparr>"
                "['''', ''a'', ''*'']" tokenizeDestination
                "\<lparr>dest = ''/a.x'', args_frame = \<lparr>command = None, headers = [], body = None\<rparr>\<rparr>"
                "['''', ''a'', ''x'']" "[]"]
          t d1 d2 m
    by simp
qed

section \<open>Publish fan-out: self-suppression and the headers of a MESSAGE\<close>

lemma get_prop_set_prop:
  "get_prop (set_prop h k v) k' = (if k' = k then Some v else get_prop h k')"
  by (induction h) (auto simp: get_prop_def)

lemma checkSubMatchDest_frame:
  "checkSubMatchDest tokenize s (args\<lparr>args_frame := fr\<rparr>) = checkSubMatchDest tokenize s args"
  by (simp add: checkSubMatchDest_def)

lemma sendToSubscriptions_own_removed:
  "sendToSubscriptions tokenize sock args (filter (\<lambda>s. sub_sessionId s \<noteq> sessionId sock) subs)
   = sendToSubscriptions tokenize sock args subs"
  by (induction subs arbitrary: args) (auto simp: Let_def split: prod.splits)

lemma sendToSubscriptions_deliveries:
  "e \<in> set (snd (sendToSubscriptions tokenize sock args subs)) \<Longrightarrow>
   \<exists>s\<in>set subs. \<exists>fr. sub_sessionId s \<noteq> sessionId sock \<and> checkSubMatchDest tokenize s args
      \<and> e = deliver s fr \<and> command fr = Some ''MESSAGE''
      \<and> get_prop (headers fr) ''subscription'' = Some (HStr (sub_id s))"
proof (induction subs arbitrary: args)
  case Nil
  then show ?case by simp
next
  case (Cons s subs)
  show ?case
  proof (cases "sessionId sock = sub_sessionId s")
    case True
    then show ?thesis using Cons.IH [of args] Cons.prems by auto
  next
    case other: False
    show ?thesis
    proof (cases "checkSubMatchDest tokenize s args")
      case False
      then show ?thesis using other Cons.IH [of args] Cons.prems by auto
    next
      case True
      let ?fr = "stamp s (args_frame args)"
      from Cons.prems other True
      have "e = deliver s ?fr \<or>
            e \<in> set (snd (sendToSubscriptions tokenize sock (args\<lparr>args_frame := ?fr\<rparr>) subs))"
        by (auto simp: Let_def split: prod.splits)
      then show ?thesis
      proof
        assume "e = deliver s ?fr"
        then show ?thesis using other True
          by (auto simp: stamp_def get_prop_set_prop intro!: exI [of _ ?fr])
      next
        assume "e \<in> set (snd (sendToSubscriptions tokenize sock (args\<lparr>args_frame := ?fr\<rparr>) subs))"
        from Cons.IH [OF this] show ?thesis by (auto simp: checkSubMatchDest_frame)
      qed
    qed
  qed
qed

lemma onSendHandler_own_removed:
  "onSendHandler tokenize stringify msgId (filter (\<lambda>s. sub_sessionId s \<noteq> sessionId sock) subs) sock args cb
   = onSendHandler tokenize stringify msgId subs sock args cb"
  by (simp add: onSendHandler_def sendToSubscriptions_own_removed cong: sum.case_cong)

text \<open>The pipeline calls the terminal handler with its own socket only.\<close>

lemma callNextTimes_cong:
  assumes same: "\<And>a st. f sock a st = g sock a st"
  shows "callNextTimes f sock n iter args st = callNextTimes g sock n iter args st"
  using same
proof (induction f sock n iter args st rule: callNextTimes.induct)
  case (1 f sock iter args st)
  then show ?case by simp
next
  case (2 f sock n args st)
  obtain r a1 st1 where e: "f sock args st = (r, a1, st1)"
    by (cases "f sock args st") auto
  then have e': "g sock args st = (r, a1, st1)" using "2.prems" by simp
  have "callNextTimes f sock n [] a1 st1 = callNextTimes g sock n [] a1 st1"
    using "2.IH" [OF e [symmetric] refl] "2.prems" by simp
  then show ?case using e e' by simp
next
  case (3 f sock n h rest args st)
  obtain rs1 iter1 a1 st1 tr1 where
    e1: "callNextTimes f sock (nextCalls h sock args) rest args st = (rs1, iter1, a1, st1, tr1)"
    by (cases "callNextTimes f sock (nextCalls h sock args) rest args st") auto
  have e1': "callNextTimes g sock (nextCalls h sock args) rest args st = (rs1, iter1, a1, st1, tr1)"
    using "3.IH"(1) "3.prems" e1 by simp
  have "callNextTimes f sock n iter1 a1 st1 = callNextTimes g sock n iter1 a1 st1"
    using "3.IH"(2) [OF e1 [symmetric] refl refl refl] "3.prems" by simp
  then show ?case using e1 e1' by simp
qed

lemma withMiddleware_cong:
  assumes "\<And>a st. f sock a st = g sock a st"
  shows "withMiddleware mw cmd f sock args st = withMiddleware mw cmd g sock args st"
  using assms callNextTimes_cong [of f sock g]
  by (simp add: withMiddleware_def callNext_def split: list.splits)

lemma onSend_own_removed:
  "onSend tokenize stringify msgId mw (filter (\<lambda>s. sub_sessionId s \<noteq> sessionId sock) subs) sock args
   = onSend tokenize stringify msgId mw subs sock args"
  unfolding onSend_def
  by (rule withMiddleware_cong) (simp add: onSendHandler_own_removed)

lemma send_own_removed:
  "send tokenize stringify parse msgId mw (filter (\<lambda>s. sub_sessionId s \<noteq> ''self_1234'') subs)
     topic_name hdrs bdy
   = send tokenize stringify parse msgId mw subs topic_name hdrs bdy"
proof -
  have self: "sessionId selfSocket = ''self_1234''"
    by (simp add: selfSocket_def)
  have "onSend tokenize stringify msgId mw (filter (\<lambda>s. sub_sessionId s \<noteq> ''self_1234'') subs) selfSocket a
      = onSend tokenize stringify msgId mw subs selfSocket a" for a
    using onSend_own_removed [of tokenize stringify msgId mw selfSocket subs a] self by simp
  then show ?thesis by (simp add: send_def cong: sum.case_cong)
qed

text \<open>
  C1. A publisher's own subscriptions do not take part in the fan-out. Every delivery
  of \<open>_sendToSubscriptions\<close> is the delivery of a MESSAGE to an entry of the registry
  with another session id; and the entries with the publisher's session id are skipped
  whether they match or not: deleting them from the registry changes neither the result
  of \<open>_sendToSubscriptions\<close>, nor that of \<open>onSend\<close> with any middleware, nor that of the
  host's \<open>send\<close>, whose session is \<open>self_1234\<close>.
\<close>

theorem self_suppression:
  "(\<forall>e\<in>set (snd (sendToSubscriptions tokenize sock args subs)).
      \<exists>s\<in>set subs. \<exists>fr. sub_sessionId s \<noteq> sessionId sock \<and> e = deliver s fr
        \<and> command fr = Some ''MESSAGE''
        \<and> get_prop (headers fr) ''subscription'' = Some (HStr (sub_id s)))
   \<and> sendToSubscriptions tokenize sock args subs
       = sendToSubscriptions tokenize sock args (filter (\<lambda>s. sub_sessionId s \<noteq> sessionId sock) subs)
   \<and> onSend tokenize stringify msgId mw subs sock args
       = onSend tokenize stringify msgId mw (filter (\<lambda>s. sub_sessionId s \<noteq> sessionId sock) subs) sock args
   \<and> send tokenize stringify parse msgId mw subs topic_name hdrs bdy
       = send tokenize stringify parse msgId mw (filter (\<lambda>s. sub_sessionId s \<noteq> ''self_1234'') subs)
           topic_name hdrs bdy"
proof -
  have a: "\<forall>e\<in>set (snd (sendToSubscriptions tokenize sock args subs)).
      \<exists>s\<in>set subs. \<exists>fr. sub_sessionId s \<noteq> sessionId sock \<and> e = deliver s fr
        \<and> command fr = Some ''MESSAGE''
        \<and> get_prop (headers fr) ''subscription'' = Some (HStr (sub_id s))"
    using sendToSubscriptions_deliveries [of _ tokenize sock args subs] by blast
  show ?thesis
    using a sendToSubscriptions_own_removed [of tokenize sock args subs]
          onSend_own_removed [of tokenize stringify msgId mw sock subs args]
          send_own_removed [of tokenize stringify parse msgId mw subs topic_name hdrs bdy]
    by simp
qed

theorem self_suppression_witness:
  "snd (sendToSubscriptions tokenizeDestination
          \<lparr>sessionId = ''B'', heartbeatClock = None, heartbeatTime = None\<rparr>
          \<lparr>dest = ''/foo'', args_frame = \<lparr>command = Some ''SEND'', headers = [], body = Some (Text ''hello'')\<rparr>\<rparr>
          [\<lparr>sub_id = ''1'', sub_sessionId = ''A'', topic = ''/foo'', tokens = ['''', ''foo''],
            sub_socket = Some \<lparr>sessionId = ''A'', heartbeatClock = None, heartbeatTime = None\<rparr>\<rparr>,
           \<lparr>sub_id = ''2'', sub_sessionId = ''B'', topic = ''/foo'', tokens = ['''', ''foo''],
            sub_socket = Some \<lparr>sessionId = ''B'', heartbeatClock = None, heartbeatTime = None\<rparr>\<rparr>])
   = [SendFrame \<lparr>sessionId = ''A'', heartbeatClock = None, heartbeatTime = None\<rparr>
        \<lparr>command = Some ''MESSAGE'', headers = [(''subscription'', HStr ''1'')], body = Some (Text ''hello'')\<rparr>]
   \<and> sendToSubscriptions tokenizeDestination
          \<lparr>sessionId = ''B'', heartbeatClock = None, heartbeatTime = None\<rparr>
          \<lparr>dest = ''/foo'', args_frame = \<lparr>command = Some ''SEND'', headers = [], body = Some (Text ''hello'')\<rparr>\<rparr>
          [\<lparr>sub_id = ''1'', sub_sessionId = ''A'', topic = ''/foo'', tokens = ['''', ''foo''],
            sub_socket = Some \<lparr>sessionId = ''A'', heartbeatClock = None, heartbeatTime = None\<rparr>\<rparr>,
           \<lparr>sub_id = ''2'', sub_sessionId = ''B'', topic = ''/foo'', tokens = ['''', ''foo''],
            sub_socket = Some \<lparr>sessionId = ''B'', heartbeatClock = None, heartbeatTime = None\<rparr>\<rparr>]
     = sendToSubscriptions tokenizeDestination
          \<lparr>sessionId = ''B'', heartbeatClock = None, heartbeatTime = None\<rparr>
          \<lparr>dest = ''/foo'', args_frame = \<lparr>command = Some ''SEND'', headers = [], body = Some (Text ''hello'')\<rparr>\<rparr>
          [\<lparr>sub_id = ''1'', sub_sessionId = ''A'', topic = ''/foo'', tokens = ['''', ''foo''],
            sub_socket = Some \<lparr>sessionId = ''A'', heartbeatClock = None, heartbeatTime = None\<rparr>\<rparr>]
   \<and> fst (send tokenizeDestination (\<lambda>b. []) Map.empty ''m1'' Map.empty
          [\<lparr>sub_id = ''h1'', sub_sessionId = ''self_1234'', topic = ''/foo'', tokens = ['''', ''foo''],
            sub_socket = None\<rparr>]
          ''/foo'' None (Some (Text ''hello'')))
     = fst (send tokenizeDestination (\<lambda>b. []) Map.empty ''m1'' Map.empty [] ''/foo'' None (Some (Text ''hello'')))"
  using self_suppression
          [where tokenize = tokenizeDestination
             and sock = "\<lparr>sessionId = ''B'', heartbeatClock = None, heartbeatTime = None\<rparr>"
             and args = "\<lparr>dest = ''/foo'', args_frame = \<lparr>command = Some ''SEND'', headers = [], body = Some (Text ''hello'')\<rparr>\<rparr>"
             and subs = "[\<lparr>sub_id = ''1'', sub_sessionId = ''A'', topic = ''/foo'', tokens = ['''', ''foo''],
                            sub_socket = Some \<lparr>sessionId = ''A'', heartbeatClock = None, heartbeatTime = None\<rparr>\<rparr>,
                          \<lparr>sub_id = ''2'', sub_sessionId = ''B'', topic = ''/foo'', tokens = ['''', ''foo''],
                            sub_socket = Some \<lparr>sessionId = ''B'', heartbeatClock = None, heartbeatTime = None\<rparr>\<rparr>]"
             and stringify = "\<lambda>b. []" and msgId = "''m1''" and mw = Map.empty and parse = Map.empty
             and topic_name = "''/foo''" and hdrs = None and bdy = "Some (Text ''hello'')"]
        self_suppression
          [where tokenize = tokenizeDestination
             and sock = "\<lparr>sessionId = ''B'', heartbeatClock = None, heartbeatTime = None\<rparr>"
             and args = "\<lparr>dest = ''/foo'', args_frame = \<lparr>command = Some ''SEND'', headers = [], body = Some (Text ''hello'')\<rparr>\<rparr>"
             and subs = "[\<lparr>sub_id = ''h1'', sub_sessionId = ''self_1234'', topic = ''/foo'', tokens = ['''', ''foo''],
                            sub_socket = None\<rparr>]"
             and stringify = "\<lambda>b. []" and msgId = "''m1''" and mw = Map.empty and parse = Map.empty
             and topic_name = "''/foo''" and hdrs = None and bdy = "Some (Text ''hello'')"]
  by (simp add: checkSubMatchDest_def tokenizeDestination_def at_def upt_conv_Cons
                stamp_def deliver_def Let_def)

text \<open>
  The headers of a delivered MESSAGE are those of the frame of \<open>args\<close>, but for
  \<open>subscription\<close>, which the fan-out sets, and \<open>content-length\<close>, which the handler sets.
\<close>

lemma sendToSubscriptions_headers:
  "e \<in> set (snd (sendToSubscriptions tokenize sock args subs)) \<Longrightarrow> k \<noteq> ''subscription'' \<Longrightarrow>
   \<exists>h. deliveredHeaders e = Some h \<and> get_prop h k = get_prop (headers (args_frame args)) k"
proof (induction subs arbitrary: args)
  case Nil
  then show ?case by simp
next
  case (Cons s subs)
  let ?fr = "stamp s (args_frame args)"
  have hk: "get_prop (headers ?fr) k = get_prop (headers (args_frame args)) k"
    using Cons.prems(2) by (simp add: stamp_def get_prop_set_prop)
  from Cons.prems(1)
  consider "e \<in> set (snd (sendToSubscriptions tokenize sock args subs))"
    | "e = deliver s ?fr"
    | "e \<in> set (snd (sendToSubscriptions tokenize sock (args\<lparr>args_frame := ?fr\<rparr>) subs))"
    by (auto simp: Let_def split: if_splits prod.splits)
  then show ?case
  proof cases
    case 1
    then show ?thesis using Cons.IH [of args] Cons.prems(2) by simp
  next
    case 2
    then show ?thesis using hk by (cases "sub_socket s") (simp_all add: deliver_def stamp_def)
  next
    case 3
    then show ?thesis using Cons.IH [of "args\<lparr>args_frame := ?fr\<rparr>"] Cons.prems(2) hk by simp
  qed
qed

lemma frameSerializer_headers: "headers (frameSerializer stringify fr) = headers fr"
  by (simp add: frameSerializer_def split: option.splits)

lemma onSendHandler_headers:
  assumes "onSendHandler tokenize stringify msgId subs sock args cb = Inr (r, args', effs)"
      and "e \<in> set effs" and "deliveredHeaders e \<noteq> None"
      and "k \<noteq> ''subscription''" and "k \<noteq> ''content-length''"
  shows "\<exists>h. deliveredHeaders e = Some h \<and> get_prop h k = get_prop (headers (args_frame args)) k"
proof -
  let ?fr = "frameSerializer stringify (args_frame args)"
  define fr1 where
    "fr1 = (case body ?fr of
              None \<Rightarrow> ?fr
            | Some b \<Rightarrow> ?fr\<lparr>headers := set_prop (headers ?fr) ''content-length'' (HNum (body_length b))\<rparr>)"
  have ef: "effs = EmitSend (headers fr1) (body (args_frame args)) (dest args) #
               snd (sendToSubscriptions tokenize sock (args\<lparr>args_frame := fr1\<rparr>) subs) @
               (if cb then [Callback True] else [])"
    using assms(1)
    by (auto simp: onSendHandler_def Let_def fr1_def split: option.splits if_splits prod.splits)
  have f1: "get_prop (headers fr1) k = get_prop (headers (args_frame args)) k"
    using assms(5)
    by (simp add: fr1_def get_prop_set_prop frameSerializer_headers split: option.splits)
  have "e \<in> set (snd (sendToSubscriptions tokenize sock (args\<lparr>args_frame := fr1\<rparr>) subs))"
    using assms(2,3) ef by (auto split: if_splits)
  from sendToSubscriptions_headers [OF this assms(4)]
  obtain h where h: "deliveredHeaders e = Some h" "get_prop h k = get_prop (headers fr1) k"
    by auto
  then show ?thesis using f1 by simp
qed

text \<open>
  The local object \<open>headers\<close> of the send handler does hold the defaults with the
  frame's own headers laid over them; it is not used after it is built.
\<close>

lemma fold_set_prop:
  "get_prop (fold (\<lambda>(k, v) h. set_prop h k v) xs h0) k =
     (case map_of (rev xs) k of None \<Rightarrow> get_prop h0 k | Some v \<Rightarrow> Some v)"
  by (induction xs arbitrary: h0) (auto simp: get_prop_set_prop map_add_def split: option.splits)

lemma localHeaders_defaults:
  "get_prop (localHeaders msgId fr) ''message-id'' =
     (case map_of (rev (headers fr)) ''message-id'' of None \<Rightarrow> Some (HStr msgId) | Some v \<Rightarrow> Some v)"
  "get_prop (localHeaders msgId fr) ''content-type'' =
     (case map_of (rev (headers fr)) ''content-type'' of None \<Rightarrow> Some (HStr ''text/plain'') | Some v \<Rightarrow> Some v)"
  unfolding localHeaders_def fold_set_prop by (simp_all add: get_prop_def split: option.splits)

text \<open>
  C2. The claim: the MESSAGE that the send handler delivers carries a fresh
  \<open>message-id\<close> and \<open>content-type: text/plain\<close> unless the incoming frame has its own.
  The code builds these defaults in the local object \<open>headers\<close> and never uses it: the
  frame it delivers is the incoming one. Session \<open>B\<close> sends \<open>hello\<close> to \<open>/foo\<close> with the
  header \<open>destination\<close> only; session \<open>A\<close> and the host are subscribed. The local
  object holds the four headers of the claim; the frame handed to \<open>A\<close>'s socket and
  the headers handed to the host's listener hold \<open>destination\<close>, \<open>content-length\<close> and
  \<open>subscription\<close>, and neither \<open>message-id\<close> nor \<open>content-type\<close>.
\<close>

theorem message_without_default_headers:
  "onSendHandler tokenizeDestination stringify msgId
     [\<lparr>sub_id = ''1'', sub_sessionId = ''A'', topic = ''/foo'', tokens = tokenizeDestination ''/foo'',
       sub_socket = Some \<lparr>sessionId = ''A'', heartbeatClock = None, heartbeatTime = None\<rparr>\<rparr>,
      \<lparr>sub_id = ''h1'', sub_sessionId = ''self_1234'', topic = ''/foo'', tokens = tokenizeDestination ''/foo'',
       sub_socket = None\<rparr>]
     \<lparr>sessionId = ''B'', heartbeatClock = None, heartbeatTime = None\<rparr>
     \<lparr>dest = ''/foo'',
      args_frame = \<lparr>command = Some ''SEND'', headers = [(''destination'', HStr ''/foo'')],
                    body = Some (Text ''hello'')\<rparr>\<rparr>
     False
   = Inr (True,
          \<lparr>dest = ''/foo'',
           args_frame = \<lparr>command = Some ''MESSAGE'',
                         headers = [(''destination'', HStr ''/foo''), (''content-length'', HNum 5),
                                    (''subscription'', HStr ''h1'')],
                         body = Some (Text ''hello'')\<rparr>\<rparr>,
          [EmitSend [(''destination'', HStr ''/foo''), (''content-length'', HNum 5)]
             (Some (Text ''hello'')) ''/foo'',
           SendFrame \<lparr>sessionId = ''A'', heartbeatClock = None, heartbeatTime = None\<rparr>
             \<lparr>command = Some ''MESSAGE'',
              headers = [(''destination'', HStr ''/foo''), (''content-length'', HNum 5),
                         (''subscription'', HStr ''1'')],
              body = Some (Text ''hello'')\<rparr>,
           EmitMessage ''h1'' (Some (Text ''hello''))
             [(''destination'', HStr ''/foo''), (''content-length'', HNum 5),
              (''subscription'', HStr ''h1'')]])
   \<and> localHeaders msgId
        \<lparr>command = Some ''SEND'',
         headers = [(''destination'', HStr ''/foo''), (''content-length'', HNum 5)],
         body = Some (Text ''hello'')\<rparr>
     = [(''message-id'', HStr msgId), (''content-type'', HStr ''text/plain''),
        (''destination'', HStr ''/foo''), (''content-length'', HNum 5)]
   \<and> get_prop [(''destination'', HStr ''/foo''), (''content-length'', HNum 5),
                (''subscription'', HStr ''1'')] ''message-id'' = None
   \<and> get_prop [(''destination'', HStr ''/foo''), (''content-length'', HNum 5),
                (''subscription'', HStr ''1'')] ''content-type'' = None"
  by (simp add: onSendHandler_def frameSerializer_def localHeaders_def get_prop_def
                checkSubMatchDest_def tokenizeDestination_def at_def upt_conv_Cons
                stamp_def deliver_def)

section \<open>Subscribing\<close>

text \<open>
  C5, the claim as stated: a SUBSCRIBE whose session and id are those of an entry of the
  registry is rejected with an ERROR frame and adds nothing. The code: session \<open>A\<close>
  holds the subscription \<open>1\<close> and subscribes again with id \<open>1\<close>; the handler answers
  \<open>true\<close>, the registry holds two entries of session \<open>A\<close> with id \<open>1\<close>, and no frame is
  sent.
\<close>

theorem duplicate_subscribe_counterexample:
  "onSubscribeHandler tokenizeDestination
     [\<lparr>sub_id = ''1'', sub_sessionId = ''A'', topic = ''/foo'', tokens = ['''', ''foo''],
       sub_socket = Some \<lparr>sessionId = ''A'', heartbeatClock = None, heartbeatTime = None\<rparr>\<rparr>]
     \<lparr>sessionId = ''A'', heartbeatClock = None, heartbeatTime = None\<rparr>
     \<lparr>args_id = ''1'', args_dest = ''/bar''\<rparr>
   = (True,
      [\<lparr>sub_id = ''1'', sub_sessionId = ''A'', topic = ''/foo'', tokens = ['''', ''foo''],
        sub_socket = Some \<lparr>sessionId = ''A'', heartbeatClock = None, heartbeatTime = None\<rparr>\<rparr>,
       \<lparr>sub_id = ''1'', sub_sessionId = ''A'', topic = ''/bar'', tokens = ['''', ''bar''],
        sub_socket = Some \<lparr>sessionId = ''A'', heartbeatClock = None, heartbeatTime = None\<rparr>\<rparr>],
      [EmitSubscribe
         \<lparr>sub_id = ''1'', sub_sessionId = ''A'', topic = ''/bar'', tokens = ['''', ''bar''],
          sub_socket = Some \<lparr>sessionId = ''A'', heartbeatClock = None, heartbeatTime = None\<rparr>\<rparr>,
       Debug [''Server subscribe'', ''1'', ''/bar'']])"
  by (simp add: onSubscribeHandler_def tokenizeDestination_def Let_def)

text \<open>
  C5, amended: every SUBSCRIBE that reaches the terminal handler is accepted, also one
  whose session and id are those of an entry of the registry. The handler returns
  \<open>true\<close>, the registry is the old one followed by one new entry with the socket's
  session and the given id, so the entries with that session and id are one more than
  before, and no effect of the handler is a frame sent to a socket.
\<close>

theorem subscribe_always_appended:
  "fst (onSubscribeHandler tokenize subs sock args) = True
   \<and> fst (snd (onSubscribeHandler tokenize subs sock args)) =
       subs @ [\<lparr>sub_id = args_id args, sub_sessionId = sessionId sock, topic = args_dest args,
                tokens = tokenize (args_dest args), sub_socket = Some sock\<rparr>]
   \<and> length (filter (\<lambda>s. sub_sessionId s = sessionId sock \<and> sub_id s = args_id args)
               (fst (snd (onSubscribeHandler tokenize subs sock args))))
       = Suc (length (filter (\<lambda>s. sub_sessionId s = sessionId sock \<and> sub_id s = args_id args) subs))
   \<and> filter (\<lambda>e. case e of SendFrame k f \<Rightarrow> True | _ \<Rightarrow> False)
         (snd (snd (onSubscribeHandler tokenize subs sock args))) = []"
  by (simp add: onSubscribeHandler_def Let_def)

section \<open>Incoming payloads: heartbeats and unknown commands\<close>

text \<open>
  C8, the claim as stated: on every session, armed or not, a payload of one LF is a
  heartbeat, updates the timestamp and never reaches the frame parser. The code: on a
  socket without \<open>heartbeatClock\<close> the LF goes to the parser and the command of its frame
  is looked up (and not found, here), and \<open>heartbeatTime\<close> stays as it was.
\<close>

theorem lf_unarmed_counterexample:
  "parseRequest commandLine clientCommands Map.empty 5000
     \<lparr>sessionId = ''A'', heartbeatClock = None, heartbeatTime = None\<rparr> (TextData LF)
   = (\<lparr>sessionId = ''A'', heartbeatClock = None, heartbeatTime = None\<rparr>, [],
      dispatchFrame clientCommands Map.empty
        \<lparr>sessionId = ''A'', heartbeatClock = None, heartbeatTime = None\<rparr>
        (commandLine (TextData LF)))
   \<and> dispatchFrame clientCommands Map.empty
        \<lparr>sessionId = ''A'', heartbeatClock = None, heartbeatTime = None\<rparr>
        (commandLine (TextData LF))
     = Inr (Str ''Command not found'')"
  by (simp add: parseRequest_def dispatchFrame_def commandKey_def commandLine_def
                clientCommands_def LF_def)

text \<open>
  C8, amended. On a session whose heartbeat clock is armed, a string payload of the one
  character LF is a heartbeat: it sets \<open>heartbeatTime\<close> to the current time, writes \<open>PONG\<close>
  to the debug sink and returns, whatever the parser and the command table are, so it
  reaches neither. Every other case goes to the frame parser. On a session without
  heartbeat clock the LF leaves the socket as it is, timestamp included, and the frame
  that the parser makes of it goes to the lookup of its command. On an armed session a
  Buffer payload, also the Buffer of the one octet \<open>0x0A\<close>, sets \<open>heartbeatTime\<close> and its
  frame goes to the lookup as well. In these cases the payload is still not dispatched
  to a command function, and \<open>Command not found\<close> is returned, when the table has no
  entry under the command that the parser reads from it.
\<close>

theorem lf_is_heartbeat_when_armed:
  "(heartbeatClock sock \<noteq> None \<longrightarrow>
      parseRequest parseFrame frameHandler parse now sock (TextData LF)
        = (sock\<lparr>heartbeatTime := Some now\<rparr>, [Debug [''PONG'']], Inr Undefined))
   \<and> (heartbeatClock sock = None \<longrightarrow>
      parseRequest parseFrame frameHandler parse now sock (TextData LF)
        = (sock, [], dispatchFrame frameHandler parse sock (parseFrame (TextData LF))))
   \<and> (heartbeatClock sock \<noteq> None \<longrightarrow>
      parseRequest parseFrame frameHandler parse now sock (BinaryData bs)
        = (sock\<lparr>heartbeatTime := Some now\<rparr>, [],
           dispatchFrame frameHandler parse (sock\<lparr>heartbeatTime := Some now\<rparr>)
             (parseFrame (BinaryData bs))))
   \<and> (frameHandler (commandKey fr) = Falsy \<longrightarrow>
      dispatchFrame frameHandler parse sock fr = Inr (Str ''Command not found''))"
  by (simp add: parseRequest_def dispatchFrame_def Let_def)

theorem lf_is_heartbeat_when_armed_witness:
  "parseRequest commandLine clientCommands Map.empty 5000
     \<lparr>sessionId = ''A'', heartbeatClock = Some 3, heartbeatTime = Some 1000\<rparr> (TextData LF)
   = (\<lparr>sessionId = ''A'', heartbeatClock = Some 3, heartbeatTime = Some 5000\<rparr>,
      [Debug [''PONG'']], Inr Undefined)
   \<and> parseRequest commandLine clientCommands Map.empty 5000
       \<lparr>sessionId = ''A'', heartbeatClock = None, heartbeatTime = Some 1000\<rparr> (TextData LF)
   = (\<lparr>sessionId = ''A'', heartbeatClock = None, heartbeatTime = Some 1000\<rparr>, [],
      Inr (Str ''Command not found''))
   \<and> parseRequest commandLine clientCommands Map.empty 5000
       \<lparr>sessionId = ''A'', heartbeatClock = Some 3, heartbeatTime = Some 1000\<rparr> (BinaryData LF)
   = (\<lparr>sessionId = ''A'', heartbeatClock = Some 3, heartbeatTime = Some 5000\<rparr>, [],
      Inr (Str ''Command not found''))"
proof -
  let ?armed = "\<lparr>sessionId = ''A'', heartbeatClock = Some 3, heartbeatTime = Some 1000\<rparr>"
  let ?beat = "\<lparr>sessionId = ''A'', heartbeatClock = Some 3, heartbeatTime = Some 5000\<rparr>"
  let ?plain = "\<lparr>sessionId = ''A'', heartbeatClock = None, heartbeatTime = Some 1000\<rparr>"
  have k1: "clientCommands (commandKey (commandLine (TextData LF))) = Falsy"
    by (simp add: commandKey_def commandLine_def clientCommands_def LF_def)
  have k2: "clientCommands (commandKey (commandLine (BinaryData LF))) = Falsy"
    by (simp add: commandKey_def commandLine_def clientCommands_def LF_def)
  note armed = lf_is_heartbeat_when_armed
      [where sock = ?armed and parseFrame = commandLine and frameHandler = clientCommands
         and parse = Map.empty and now = 5000 and bs = LF
         and fr = "commandLine (BinaryData LF)"]
  note beat = lf_is_heartbeat_when_armed
      [where sock = ?beat and parseFrame = commandLine and frameHandler = clientCommands
         and parse = Map.empty and now = 5000 and bs = LF
         and fr = "commandLine (BinaryData LF)"]
  note plain = lf_is_heartbeat_when_armed
      [where sock = ?plain and parseFrame = commandLine and frameHandler = clientCommands
         and parse = Map.empty and now = 5000 and bs = LF
         and fr = "commandLine (TextData LF)"]
  have a: "parseRequest commandLine clientCommands Map.empty 5000 ?armed (TextData LF)
      = (?beat, [Debug [''PONG'']], Inr Undefined)"
    using armed by simp
  have b: "parseRequest commandLine clientCommands Map.empty 5000 ?plain (TextData LF)
      = (?plain, [], Inr (Str ''Command not found''))"
    using plain k1 by simp
  have c: "parseRequest commandLine clientCommands Map.empty 5000 ?armed (BinaryData LF)
      = (?beat, [], Inr (Str ''Command not found''))"
    using armed beat k2 by simp
  show ?thesis using a b c by simp
qed




section \<open>Teardown\<close>

lemma removeLoop_filter:
  "removeLoop sock subs i =
     take i subs @ filter (\<lambda>s. sub_sessionId s \<noteq> sessionId sock) (drop i subs)"
proof (induction sock subs i rule: removeLoop.induct)
  case (1 sock subs i)
  show ?case
  proof (cases "i < length subs")
    case False
    then show ?thesis by (simp add: removeLoop.simps [of sock subs i])
  next
    case inside: True
    then have d: "drop i subs = subs ! i # drop (Suc i) subs"
      by (simp add: Cons_nth_drop_Suc)
    show ?thesis
    proof (cases "sub_sessionId (subs ! i) = sessionId sock")
      case True
      have t: "take i (splice1 subs i) = take i subs"
        using inside by (simp add: splice1_def)
      have r: "drop i (splice1 subs i) = drop (Suc i) subs"
        using inside by (simp add: splice1_def)
      have "removeLoop sock subs i = removeLoop sock (splice1 subs i) i"
        using inside True by (simp add: removeLoop.simps [of sock subs i])
      also have "\<dots> = take i subs @ filter (\<lambda>s. sub_sessionId s \<noteq> sessionId sock) (drop (Suc i) subs)"
        using "1.IH"(1) [OF inside True] t r by simp
      finally show ?thesis using d True by simp
    next
      case False
      have "removeLoop sock subs i = removeLoop sock subs (Suc i)"
        using inside False by (simp add: removeLoop.simps [of sock subs i])
      also have "\<dots> = take (Suc i) subs @ filter (\<lambda>s. sub_sessionId s \<noteq> sessionId sock) (drop (Suc i) subs)"
        using "1.IH"(2) [OF inside False] by simp
      finally show ?thesis using d False inside by (simp add: take_Suc_conv_app_nth)
    qed
  qed
qed

lemma afterConnectionClose_eq:
  "afterConnectionClose subs sock =
     (filter (\<lambda>s. sub_sessionId s \<noteq> sessionId sock) subs,
      sock\<lparr>heartbeatClock := None\<rparr>,
      (case heartbeatClock sock of None \<Rightarrow> [] | Some clock \<Rightarrow> [ClearInterval clock]))"
  by (simp add: afterConnectionClose_def heartbeatOff_def removeLoop_filter split: option.splits)

text \<open>
  C6. After \<open>afterConnectionClose\<close> the registry holds exactly the subscriptions of the
  other sessions, so none of the closed session; the socket has no \<open>heartbeatClock\<close>, and
  the clock it had was cleared. A second teardown of the same session returns the same
  registry and socket and does nothing.
\<close>

theorem teardown_clears_session:
  assumes "afterConnectionClose subs sock = (subs', sock', effs)"
  shows "subs' = filter (\<lambda>s. sub_sessionId s \<noteq> sessionId sock) subs
       \<and> (\<forall>s\<in>set subs'. sub_sessionId s \<noteq> sessionId sock)
       \<and> heartbeatClock sock' = None
       \<and> effs = (case heartbeatClock sock of None \<Rightarrow> [] | Some clock \<Rightarrow> [ClearInterval clock])
       \<and> afterConnectionClose subs' sock' = (subs', sock', [])"
proof -
  have s: "subs' = filter (\<lambda>s. sub_sessionId s \<noteq> sessionId sock) subs"
    and k: "sock' = sock\<lparr>heartbeatClock := None\<rparr>"
    and e: "effs = (case heartbeatClock sock of None \<Rightarrow> [] | Some clock \<Rightarrow> [ClearInterval clock])"
    using assms by (simp_all add: afterConnectionClose_eq)
  have again: "afterConnectionClose subs' sock' = (subs', sock', [])"
    unfolding s k by (simp add: afterConnectionClose_eq)
  show ?thesis using s k e again by simp
qed

theorem teardown_clears_session_witness:
  "afterConnectionClose
     [\<lparr>sub_id = ''1'', sub_sessionId = ''A'', topic = ''/t'', tokens = ['''', ''t''], sub_socket = None\<rparr>,
      \<lparr>sub_id = ''2'', sub_sessionId = ''B'', topic = ''/t'', tokens = ['''', ''t''], sub_socket = None\<rparr>,
      \<lparr>sub_id = ''3'', sub_sessionId = ''A'', topic = ''/u'', tokens = ['''', ''u''], sub_socket = None\<rparr>]
     \<lparr>sessionId = ''A'', heartbeatClock = Some 7, heartbeatTime = Some 1000\<rparr>
   = ([\<lparr>sub_id = ''2'', sub_sessionId = ''B'', topic = ''/t'', tokens = ['''', ''t''], sub_socket = None\<rparr>],
      \<lparr>sessionId = ''A'', heartbeatClock = None, heartbeatTime = Some 1000\<rparr>,
      [ClearInterval 7])
   \<and> afterConnectionClose
     [\<lparr>sub_id = ''2'', sub_sessionId = ''B'', topic = ''/t'', tokens = ['''', ''t''], sub_socket = None\<rparr>]
     \<lparr>sessionId = ''A'', heartbeatClock = None, heartbeatTime = Some 1000\<rparr>
   = ([\<lparr>sub_id = ''2'', sub_sessionId = ''B'', topic = ''/t'', tokens = ['''', ''t''], sub_socket = None\<rparr>],
      \<lparr>sessionId = ''A'', heartbeatClock = None, heartbeatTime = Some 1000\<rparr>,
      [])"
proof -
  have first: "afterConnectionClose
     [\<lparr>sub_id = ''1'', sub_sessionId = ''A'', topic = ''/t'', tokens = ['''', ''t''], sub_socket = None\<rparr>,
      \<lparr>sub_id = ''2'', sub_sessionId = ''B'', topic = ''/t'', tokens = ['''', ''t''], sub_socket = None\<rparr>,
      \<lparr>sub_id = ''3'', sub_sessionId = ''A'', topic = ''/u'', tokens = ['''', ''u''], sub_socket = None\<rparr>]
     \<lparr>sessionId = ''A'', heartbeatClock = Some 7, heartbeatTime = Some 1000\<rparr>
   = ([\<lparr>sub_id = ''2'', sub_sessionId = ''B'', topic = ''/t'', tokens = ['''', ''t''], sub_socket = None\<rparr>],
      \<lparr>sessionId = ''A'', heartbeatClock = None, heartbeatTime = Some 1000\<rparr>,
      [ClearInterval 7])"
    by (simp add: afterConnectionClose_def heartbeatOff_def splice1_def removeLoop.simps)
  show ?thesis using teardown_clears_session [OF first] first by simp
qed

section \<open>The middleware pipeline\<close>

lemma callNextTimes_one:
  "callNextTimes fin sock (Suc 0) iter args st =
     (case callNext fin sock iter args st of (r, iter1, args1, st1, tr) \<Rightarrow> ([r], iter1, args1, st1, tr))"
  by (cases iter) (simp_all add: callNext_def split: prod.splits)

lemma callNext_all_once:
  "\<forall>h\<in>set hs. nextCalls h sock args = 1 \<Longrightarrow>
   callNext fin sock hs args st =
     (case fin sock args st of
        (r, args1, st1) \<Rightarrow>
          (foldr (\<lambda>h v. returns h sock args [v]) hs r, [], args1, st1,
           map (\<lambda>i. Interceptor (hid i)) hs @ [TerminalHandler]))"
proof (induction hs)
  case Nil
  then show ?case by (simp add: callNext_def split: prod.splits)
next
  case (Cons h hs)
  then have rest: "callNext fin sock hs args st =
     (case fin sock args st of
        (r, args1, st1) \<Rightarrow>
          (foldr (\<lambda>h v. returns h sock args [v]) hs r, [], args1, st1,
           map (\<lambda>i. Interceptor (hid i)) hs @ [TerminalHandler]))"
    by simp
  have "nextCalls h sock args = Suc 0" using Cons.prems by simp
  then have "callNext fin sock (h # hs) args st =
     (case callNext fin sock hs args st of
        (r, iter1, args1, st1, tr) \<Rightarrow> (returns h sock args [r], iter1, args1, st1, Interceptor (hid h) # tr))"
    by (simp add: callNext_def [of fin sock "h # hs"] callNextTimes_one split: prod.splits)
  then show ?case using rest by (simp split: prod.splits)
qed

lemma callNext_cut:
  "\<forall>p\<in>set pre. nextCalls p sock args = 1 \<Longrightarrow> nextCalls h sock args = 0 \<Longrightarrow>
   callNext fin sock (pre @ h # post) args st =
     (foldr (\<lambda>p v. returns p sock args [v]) pre (returns h sock args []), post, args, st,
      map (\<lambda>i. Interceptor (hid i)) (pre @ [h]))"
proof (induction pre)
  case Nil
  then show ?case by (simp add: callNext_def)
next
  case (Cons p pre)
  then have rest: "callNext fin sock (pre @ h # post) args st =
     (foldr (\<lambda>p v. returns p sock args [v]) pre (returns h sock args []), post, args, st,
      map (\<lambda>i. Interceptor (hid i)) (pre @ [h]))"
    by simp
  have "nextCalls p sock args = Suc 0" using Cons.prems by simp
  then have "callNext fin sock ((p # pre) @ h # post) args st =
     (case callNext fin sock (pre @ h # post) args st of
        (r, iter1, args1, st1, tr) \<Rightarrow> (returns p sock args [r], iter1, args1, st1, Interceptor (hid p) # tr))"
    by (simp add: callNext_def [of fin sock "p # pre @ h # post"] callNextTimes_one split: prod.splits)
  then show ?case using rest by simp
qed

text \<open>
  C7, the claim as stated: if some interceptor does not invoke \<open>next()\<close>, the terminal
  handler does not run. The code: the iterator is shared by all calls of \<open>callNext\<close>. With
  the interceptors \<open>1\<close>, which invokes \<open>next()\<close> twice, and \<open>2\<close>, which does not invoke it,
  registered for \<open>subscribe\<close>, the first \<open>next()\<close> of \<open>1\<close> runs \<open>2\<close> and the second finds the
  iterator done and runs the terminal handler: the subscription is added, although \<open>2\<close>
  did not invoke \<open>next()\<close>.
\<close>

theorem second_next_reaches_terminal_counterexample:
  "onSubscribe tokenizeDestination
     (addMiddleware (addMiddleware Map.empty ''subscribe'' (constHandler 1 2 True))
        ''subscribe'' (constHandler 2 0 False))
     []
     \<lparr>sessionId = ''A'', heartbeatClock = None, heartbeatTime = None\<rparr>
     \<lparr>args_id = ''1'', args_dest = ''/foo''\<rparr>
   = (True,
      [\<lparr>sub_id = ''1'', sub_sessionId = ''A'', topic = ''/foo'', tokens = ['''', ''foo''],
        sub_socket = Some \<lparr>sessionId = ''A'', heartbeatClock = None, heartbeatTime = None\<rparr>\<rparr>],
      [EmitSubscribe
         \<lparr>sub_id = ''1'', sub_sessionId = ''A'', topic = ''/foo'', tokens = ['''', ''foo''],
          sub_socket = Some \<lparr>sessionId = ''A'', heartbeatClock = None, heartbeatTime = None\<rparr>\<rparr>,
       Debug [''Server subscribe'', ''1'', ''/foo'']],
      [Interceptor 1, Interceptor 2, TerminalHandler])"
  by (simp add: onSubscribe_def withMiddleware_def callNext_def addMiddleware_def
                toLowerCase_def lowerChar_def constHandler_def numeral_2_eq_2
                onSubscribeHandler_def tokenizeDestination_def Let_def)

text \<open>
  C7, amended. Let a list of interceptors be registered for the command. If every
  interceptor invokes \<open>next()\<close> exactly once, all of them run in the order of
  registration and the terminal handler runs after them, once. If an interceptor does
  not invoke \<open>next()\<close>, and every interceptor before it invokes \<open>next()\<close> exactly once, then
  the interceptors up to and including it run, in order, and nothing else: no later
  interceptor, not the terminal handler; the pipeline returns with \<open>args\<close> and the state
  of the broker as they were. For \<open>subscribe\<close> that is: the registry is unchanged and
  there is no effect, so no frame is sent and no socket is closed.
\<close>

theorem middleware_chain:
  assumes "mw (toLowerCase cmd) = Some hs"
  shows "((\<forall>h\<in>set hs. nextCalls h sock args = 1) \<longrightarrow>
            withMiddleware mw cmd fin sock args st =
              (case fin sock args st of
                 (r, args1, st1) \<Rightarrow>
                   (foldr (\<lambda>h v. returns h sock args [v]) hs r, args1, st1,
                    map (\<lambda>i. Interceptor (hid i)) hs @ [TerminalHandler])))
       \<and> (\<forall>pre h post.
            hs = pre @ h # post \<and> (\<forall>p\<in>set pre. nextCalls p sock args = 1) \<and> nextCalls h sock args = 0 \<longrightarrow>
            withMiddleware mw cmd fin sock args st =
              (foldr (\<lambda>p v. returns p sock args [v]) pre (returns h sock args []), args, st,
               map (\<lambda>i. Interceptor (hid i)) (pre @ [h]))
            \<and> TerminalHandler \<notin> set (snd (snd (snd (withMiddleware mw cmd fin sock args st)))))
       \<and> (\<forall>pre h post smw subs sargs.
            smw ''subscribe'' = Some (pre @ h # post) \<and> (\<forall>p\<in>set pre. nextCalls p sock sargs = 1)
              \<and> nextCalls h sock sargs = 0 \<longrightarrow>
            onSubscribe tokenize smw subs sock sargs =
              (foldr (\<lambda>p v. returns p sock sargs [v]) pre (returns h sock sargs []), subs, [],
               map (\<lambda>i. Interceptor (hid i)) (pre @ [h])))"
proof -
  have one: "(\<forall>h\<in>set hs. nextCalls h sock args = 1) \<longrightarrow>
            withMiddleware mw cmd fin sock args st =
              (case fin sock args st of
                 (r, args1, st1) \<Rightarrow>
                   (foldr (\<lambda>h v. returns h sock args [v]) hs r, args1, st1,
                    map (\<lambda>i. Interceptor (hid i)) hs @ [TerminalHandler]))"
    using assms by (auto simp: withMiddleware_def callNext_all_once split: prod.splits)
  have cut: "withMiddleware m c f sock a s =
              (foldr (\<lambda>p v. returns p sock a [v]) pre (returns h sock a []), a, s,
               map (\<lambda>i. Interceptor (hid i)) (pre @ [h]))"
    if "m (toLowerCase c) = Some (pre @ h # post)" "\<forall>p\<in>set pre. nextCalls p sock a = 1"
       "nextCalls h sock a = 0"
    for m :: "string \<rightharpoonup> ('x, 'y) handler list" and c pre h post a and s :: 'z and f
    using that by (simp add: withMiddleware_def callNext_cut)
  have two: "\<forall>pre h post.
            hs = pre @ h # post \<and> (\<forall>p\<in>set pre. nextCalls p sock args = 1) \<and> nextCalls h sock args = 0 \<longrightarrow>
            withMiddleware mw cmd fin sock args st =
              (foldr (\<lambda>p v. returns p sock args [v]) pre (returns h sock args []), args, st,
               map (\<lambda>i. Interceptor (hid i)) (pre @ [h]))
            \<and> TerminalHandler \<notin> set (snd (snd (snd (withMiddleware mw cmd fin sock args st))))"
    using assms cut [of mw cmd _ _ _ args fin st] by auto
  have low: "toLowerCase ''subscribe'' = ''subscribe''"
    by (simp add: toLowerCase_def lowerChar_def)
  have three: "\<forall>pre h post smw subs sargs.
            smw ''subscribe'' = Some (pre @ h # post) \<and> (\<forall>p\<in>set pre. nextCalls p sock sargs = 1)
              \<and> nextCalls h sock sargs = 0 \<longrightarrow>
            onSubscribe tokenize smw subs sock sargs =
              (foldr (\<lambda>p v. returns p sock sargs [v]) pre (returns h sock sargs []), subs, [],
               map (\<lambda>i. Interceptor (hid i)) (pre @ [h]))"
    using low by (auto simp: onSubscribe_def cut)
  show ?thesis using one two three by blast
qed

theorem middleware_chain_witness:
  "withMiddleware
     (addMiddleware (addMiddleware Map.empty ''send'' (constHandler 1 1 True)) ''send'' (constHandler 2 1 True))
     ''SEND'' (\<lambda>sock args st. (True, args, Suc st))
     \<lparr>sessionId = ''A'', heartbeatClock = None, heartbeatTime = None\<rparr> () (0::nat)
   = (True, (), 1, [Interceptor 1, Interceptor 2, TerminalHandler])
   \<and> onSubscribe tokenizeDestination
       (addMiddleware
          (addMiddleware (addMiddleware Map.empty ''subscribe'' (constHandler 1 1 True))
             ''subscribe'' (constHandler 2 0 False))
          ''subscribe'' (constHandler 3 1 True))
       []
       \<lparr>sessionId = ''A'', heartbeatClock = None, heartbeatTime = None\<rparr>
       \<lparr>args_id = ''1'', args_dest = ''/foo''\<rparr>
   = (True, [], [], [Interceptor 1, Interceptor 2])"
proof -
  let ?sock = "\<lparr>sessionId = ''A'', heartbeatClock = None, heartbeatTime = None\<rparr>"
  let ?mw = "addMiddleware (addMiddleware Map.empty ''send'' (constHandler 1 1 True))
               ''send'' (constHandler 2 1 True) :: string \<rightharpoonup> (unit, bool) handler list"
  let ?smw = "addMiddleware
          (addMiddleware (addMiddleware Map.empty ''subscribe'' (constHandler 1 1 True))
             ''subscribe'' (constHandler 2 0 False))
          ''subscribe'' (constHandler 3 1 True) :: string \<rightharpoonup> (subscribe_args, bool) handler list"
  have reg: "?mw (toLowerCase ''SEND'') = Some [constHandler 1 1 True, constHandler 2 1 True]"
    by (simp add: addMiddleware_def toLowerCase_def lowerChar_def)
  have sreg: "?smw ''subscribe'' =
                Some ([constHandler 1 1 True] @ constHandler 2 0 False # [constHandler 3 1 True])"
    by (simp add: addMiddleware_def toLowerCase_def lowerChar_def)
  note chain = middleware_chain
      [where mw = ?mw and cmd = "''SEND''" and sock = ?sock and args = "()" and st = "0::nat"
         and fin = "\<lambda>sock args st. (True, args, Suc st)" and tokenize = tokenizeDestination, OF reg]
  have first: "withMiddleware ?mw ''SEND'' (\<lambda>sock args st. (True, args, Suc st)) ?sock () (0::nat)
      = (True, (), 1, [Interceptor 1, Interceptor 2, TerminalHandler])"
    using chain [THEN conjunct1] by (simp add: constHandler_def)
  have second: "onSubscribe tokenizeDestination ?smw [] ?sock \<lparr>args_id = ''1'', args_dest = ''/foo''\<rparr>
      = (True, [], [], [Interceptor 1, Interceptor 2])"
    using chain [THEN conjunct2, THEN conjunct2, rule_format,
                 where smw = ?smw and pre = "[constHandler 1 1 True]" and h = "constHandler 2 0 False"
                   and post = "[constHandler 3 1 True]" and subs = "[]"
                   and sargs = "\<lparr>args_id = ''1'', args_dest = ''/foo''\<rparr>"]
          sreg
    by (simp add: constHandler_def)
  show ?thesis using first second by simp
qed

section \<open>Removing middleware\<close>

lemma indexOfFrom_absent: "h \<notin> set hs \<Longrightarrow> indexOfFrom i hs h = -1"
  by (induction hs arbitrary: i) auto

text \<open>
  C10. With no array of handlers under the command, as in the broker's initial
  \<open>this.middleware = {}\<close>, \<open>removeMiddleware\<close> throws a \<open>TypeError\<close>. With a non-empty array
  under the command that does not hold the handler, it returns and leaves
  \<open>this.middleware\<close> as it was.
\<close>

theorem removeMiddleware_unregistered:
  "removeMiddleware Map.empty cmd h = Inl TypeError
   \<and> (mw (toLowerCase cmd) = None \<longrightarrow> removeMiddleware mw cmd h = Inl TypeError)
   \<and> (\<forall>hs. mw (toLowerCase cmd) = Some hs \<and> hs \<noteq> [] \<and> h \<notin> set hs \<longrightarrow>
         removeMiddleware mw cmd h = Inr mw)"
  by (simp add: removeMiddleware_def indexOf_def indexOfFrom_absent)

theorem removeMiddleware_unregistered_witness:
  "removeMiddleware (addMiddleware Map.empty ''subscribe'' (1::nat)) ''SEND'' 1 = Inl TypeError
   \<and> removeMiddleware (addMiddleware Map.empty ''send'' (1::nat)) ''SEND'' 2
       = Inr (addMiddleware Map.empty ''send'' 1)"
proof -
  have l: "toLowerCase ''SEND'' = ''send''"
    by (simp add: toLowerCase_def lowerChar_def)
  have a: "addMiddleware Map.empty ''subscribe'' (1::nat) (toLowerCase ''SEND'') = None"
    by (simp add: addMiddleware_def toLowerCase_def lowerChar_def)
  have b: "addMiddleware Map.empty ''send'' (1::nat) (toLowerCase ''SEND'') = Some [1]"
    by (simp add: addMiddleware_def toLowerCase_def lowerChar_def)
  show ?thesis
    using removeMiddleware_unregistered
            [of "''SEND''" "1::nat" "addMiddleware Map.empty ''subscribe'' (1::nat)"]
          removeMiddleware_unregistered
            [of "''SEND''" "2::nat" "addMiddleware Map.empty ''send'' (1::nat)"]
          a b
    by simp
qed

end
